theory Spec2Isabelle
  imports Complex_Main "HOL-Library.AList" "HOL-Library.Sublist"
begin

section \<open>Python values, errors and the parameter store\<close>

text \<open>
  Arguments carried by a Python exception: strings, integers and tuples of them
  (a failed dictionary lookup carries the key that was looked up).
\<close>

datatype pyarg = AStr string | AInt int | ATuple "pyarg list"

datatype error =
    KeyError "pyarg list"
  | ValueError "pyarg list"
  | TypeError
  | IndexError

text \<open>
  A stored cell as pandas hands it over: the numeric-absent value (NaN, an empty
  spreadsheet cell), a number (booleans count as the numbers 1 and 0, as in Python),
  or a text, on which \<open>np.isnan\<close> raises TypeError.
\<close>

datatype cell = NaN | Number real | Text string

text \<open>
  The keys of the four kinds of table of one entity: \<open>Parameter\<close>,
  \<open>(Parameter, Flow)\<close>, \<open>(Parameter, Year)\<close>, \<open>(Parameter, Flow, Year)\<close>.
  A flow or year component read from an empty index cell is \<open>None\<close>; a query always
  supplies a present component.
\<close>

datatype key =
    KP string
  | KPF string "string option"
  | KPY string "int option"
  | KPFY string "string option" "int option"

type_synonym table = "key \<rightharpoonup> cell"
type_synonym entity_tables = "string \<rightharpoonup> table"

record dataframe =
  df_index :: "string list"
  df_columns :: "string list"
  df_values :: "cell list list"

record DataHandler =
  fxe :: "string \<rightharpoonup> dataframe"
  params :: "string \<rightharpoonup> entity_tables"

definition bind_err :: "error + 'a \<Rightarrow> ('a \<Rightarrow> error + 'b) \<Rightarrow> error + 'b" where
  "bind_err r f = (case r of Inl e \<Rightarrow> Inl e | Inr x \<Rightarrow> f x)"

fun mapM_err :: "('a \<Rightarrow> error + 'b) \<Rightarrow> 'a list \<Rightarrow> error + 'b list" where
  "mapM_err f [] = Inr []"
| "mapM_err f (x # xs) =
     (case f x of Inl e \<Rightarrow> Inl e
      | Inr y \<Rightarrow> (case mapM_err f xs of Inl e \<Rightarrow> Inl e | Inr ys \<Rightarrow> Inr (y # ys)))"

text \<open>
  \<open>assert isinstance(value, Number) or np.isnan(value)\<close> followed by
  \<open>return None if np.isnan(value) else value\<close>: a text makes \<open>np.isnan\<close> raise
  TypeError, NaN gives None, a number is returned as it is.
\<close>

fun none_if_nan :: "cell \<Rightarrow> error + real option" where
  "none_if_nan NaN = Inr None"
| "none_if_nan (Number v) = Inr (Some v)"
| "none_if_nan (Text s) = Inl TypeError"

text \<open>\<open>self.params[entity_id][kind][k]\<close>, each missing key raising KeyError of that key.\<close>

fun key_arg :: "key \<Rightarrow> pyarg" where
  "key_arg (KP p) = AStr p"
| "key_arg (KPF p f) = ATuple [AStr p, AStr (case f of None \<Rightarrow> ''nan'' | Some s \<Rightarrow> s)]"
| "key_arg (KPY p y) = ATuple [AStr p, (case y of None \<Rightarrow> AStr ''nan'' | Some n \<Rightarrow> AInt n)]"
| "key_arg (KPFY p f y) =
     ATuple [AStr p, AStr (case f of None \<Rightarrow> ''nan'' | Some s \<Rightarrow> s),
             (case y of None \<Rightarrow> AStr ''nan'' | Some n \<Rightarrow> AInt n)]"

definition lookup3 :: "DataHandler \<Rightarrow> string \<Rightarrow> string \<Rightarrow> key \<Rightarrow> error + cell" where
  "lookup3 dh entity_id kind k =
     (case params dh entity_id of
        None \<Rightarrow> Inl (KeyError [AStr entity_id])
      | Some tabs \<Rightarrow>
          (case tabs kind of
             None \<Rightarrow> Inl (KeyError [AStr kind])
           | Some tb \<Rightarrow>
               (case tb k of
                  None \<Rightarrow> Inl (KeyError [key_arg k])
                | Some v \<Rightarrow> Inr v)))"

definition check_cnf :: "DataHandler \<Rightarrow> string \<Rightarrow> string \<Rightarrow> error + real option" where
  "check_cnf dh entity_id parameter =
     (case lookup3 dh entity_id ''configuration'' (KP parameter) of
        Inl (KeyError _) \<Rightarrow> Inl (KeyError [AStr ''Invalid key for'', AStr entity_id, AStr parameter])
      | Inl e \<Rightarrow> Inl e
      | Inr v \<Rightarrow> none_if_nan v)"

definition get_const :: "DataHandler \<Rightarrow> string \<Rightarrow> string \<Rightarrow> error + real option" where
  "get_const dh entity_id parameter =
     (case lookup3 dh entity_id ''constant'' (KP parameter) of
        Inl (KeyError _) \<Rightarrow> Inl (KeyError [AStr ''Invalid key for'', AStr entity_id, AStr parameter])
      | Inl e \<Rightarrow> Inl e
      | Inr v \<Rightarrow> none_if_nan v)"

definition get_const_fxe :: "DataHandler \<Rightarrow> string \<Rightarrow> string \<Rightarrow> string \<Rightarrow> error + real option" where
  "get_const_fxe dh entity_id parameter flow =
     (case lookup3 dh entity_id ''constant_fxe'' (KPF parameter (Some flow)) of
        Inl (KeyError _) \<Rightarrow>
          Inl (KeyError [AStr ''Invalid key for'', AStr entity_id, AStr parameter, AStr flow])
      | Inl e \<Rightarrow> Inl e
      | Inr v \<Rightarrow> none_if_nan v)"

definition get_annual :: "DataHandler \<Rightarrow> string \<Rightarrow> string \<Rightarrow> int \<Rightarrow> error + real option" where
  "get_annual dh entity_id parameter year =
     bind_err (lookup3 dh entity_id ''annual'' (KPY parameter (Some year))) none_if_nan"

definition get_annual_fxe ::
  "DataHandler \<Rightarrow> string \<Rightarrow> string \<Rightarrow> string \<Rightarrow> int \<Rightarrow> error + real option" where
  "get_annual_fxe dh entity_id parameter flow year =
     bind_err (lookup3 dh entity_id ''annual_fxe'' (KPFY parameter (Some flow) (Some year)))
       none_if_nan"

text \<open>\<open>kind in tabs and k in tabs[kind]\<close>.\<close>

definition in_table :: "entity_tables \<Rightarrow> string \<Rightarrow> key \<Rightarrow> bool" where
  "in_table tabs kind k = (case tabs kind of None \<Rightarrow> False | Some tb \<Rightarrow> tb k \<noteq> None)"

text \<open>
  The generic query. The pair threaded through the steps is \<open>(found, value)\<close>; the
  first \<open>self.params[entity_id]\<close> raises KeyError for an entity the store does not hold.
\<close>

definition get :: "DataHandler \<Rightarrow> string \<Rightarrow> string \<Rightarrow> int \<Rightarrow> bool \<Rightarrow> error + real option" where
  "get dh entity_id parameter year trigger_error =
     (case params dh entity_id of
        None \<Rightarrow> Inl (KeyError [AStr entity_id])
      | Some tabs \<Rightarrow>
          bind_err
            (if in_table tabs ''annual'' (KPY parameter (Some year))
             then bind_err (get_annual dh entity_id parameter year) (\<lambda>v. Inr (True, v))
             else Inr (False, None))
            (\<lambda>(found, value).
               bind_err
                 (if value = None \<and> in_table tabs ''constant'' (KP parameter)
                  then bind_err (get_const dh entity_id parameter) (\<lambda>v. Inr (True, v))
                  else Inr (found, value))
                 (\<lambda>(found, value).
                    if \<not> found \<and> trigger_error
                    then Inl (KeyError [AStr ''Parameter'', AStr parameter,
                                        AStr ''not found for'', AStr entity_id])
                    else Inr value)))"

definition get_fxe ::
  "DataHandler \<Rightarrow> string \<Rightarrow> string \<Rightarrow> string \<Rightarrow> int \<Rightarrow> bool \<Rightarrow> error + real option" where
  "get_fxe dh entity_id parameter flow year trigger_error =
     (case params dh entity_id of
        None \<Rightarrow> Inl (KeyError [AStr entity_id])
      | Some tabs \<Rightarrow>
          bind_err
            (if in_table tabs ''annual_fxe'' (KPFY parameter (Some flow) (Some year))
             then bind_err (get_annual_fxe dh entity_id parameter flow year) (\<lambda>v. Inr (True, v))
             else Inr (False, None))
            (\<lambda>(found, value).
               bind_err
                 (if value = None
                  then (if in_table tabs ''constant_fxe'' (KPF parameter (Some flow))
                        then bind_err (get_const_fxe dh entity_id parameter flow)
                               (\<lambda>v. Inr (True, v))
                        else Inr (found, value))
                  else Inr (found, value))
                 (\<lambda>(found, value).
                    if \<not> found \<and> trigger_error
                    then Inl (KeyError [AStr ''Parameter'', AStr parameter,
                                        AStr ''not found for'', AStr entity_id,
                                        AStr ''and'', AStr flow])
                    else Inr value)))"

text \<open>
  \<open>build_cnf_set\<close>: the entities of \<open>entity_set\<close> whose configuration flag equals 1.
  The Python set is iterated in an unspecified order; the list gives that order, which
  decides only which error is reported when several entities fail.
\<close>

definition build_cnf_set :: "DataHandler \<Rightarrow> string list \<Rightarrow> string \<Rightarrow> error + string list" where
  "build_cnf_set dh entity_set parameter =
     bind_err (mapM_err (\<lambda>i. bind_err (check_cnf dh i parameter) (\<lambda>v. Inr (i, v))) entity_set)
       (\<lambda>flags. Inr (map fst (filter (\<lambda>(i, v). v = Some 1) flags)))"


section \<open>Flow-to-entity dictionaries\<close>

text \<open>
  A Python dictionary whose iteration order matters is an association list with distinct
  keys, in insertion order: \<open>AList.update\<close> overwrites in place or appends a new key
  at the end, as assignment to a \<open>dict\<close> does.

  \<open>unique\<close> keeps the first occurrence of every element (pandas \<open>unique()\<close>, and the
  order chosen here for iterating a Python \<open>set\<close> built from a sequence).
\<close>

definition unique :: "'a list \<Rightarrow> 'a list" where
  "unique xs = rev (remdups (rev xs))"

text \<open>
  \<open>list(io_df.stack().index)\<close>: the (row label, column label) pairs of the cells that
  are not NaN, row by row. \<open>io_df.T\<close> swaps the two axes. Frames are rectangular: every
  row of \<open>df_values\<close> has one cell per column.
\<close>

definition stack_index :: "dataframe \<Rightarrow> (string \<times> string) list" where
  "stack_index df =
     concat (map (\<lambda>(r, row). map (\<lambda>(c, v). (r, c)) (filter (\<lambda>(c, v). v \<noteq> NaN) (zip (df_columns df) row)))
                 (zip (df_index df) (df_values df)))"

definition df_T :: "dataframe \<Rightarrow> dataframe" where
  "df_T df =
     \<lparr>df_index = df_columns df, df_columns = df_index df,
      df_values = map (\<lambda>j. map (\<lambda>row. row ! j) (df_values df)) [0..<length (df_columns df)]\<rparr>"

text \<open>\<open>io_dict.setdefault(f, []).append(p)\<close>\<close>

definition setdefault_append ::
  "string \<Rightarrow> string \<Rightarrow> (string \<times> string list) list \<Rightarrow> (string \<times> string list) list" where
  "setdefault_append f p io_dict =
     (case map_of io_dict f of
        None \<Rightarrow> AList.update f [p] io_dict
      | Some v \<Rightarrow> AList.update f (v @ [p]) io_dict)"

definition get_flow_entity_dict :: "dataframe \<Rightarrow> bool \<Rightarrow> (string \<times> string list) list" where
  "get_flow_entity_dict io_df by_entity =
     (let flows = df_columns io_df;
          io_dict = fold (\<lambda>f d. AList.update f [] d) flows [];
          index_tuples = (if \<not> by_entity then stack_index io_df else stack_index (df_T io_df));
          io_dict = fold (\<lambda>(p, f) d. setdefault_append f p d) index_tuples io_dict
      in filter (\<lambda>(k, v). v \<noteq> []) io_dict)"

text \<open>
  \<open>merge_dicts\<close>: \<open>keys\<close> is a Python set, iterated here in order of first occurrence;
  \<open>out_dict[k].extend(i)\<close> always finds \<open>k\<close>, since \<open>keys\<close> holds the keys of both
  inputs. Every list of \<open>out_dict\<close> is created fresh, so no list is shared with an input.
\<close>

definition merge_dicts ::
  "(string \<times> string list) list \<Rightarrow> (string \<times> string list) list \<Rightarrow> (string \<times> string list) list" where
  "merge_dicts dict1 dict2 =
     (let keys = unique (map fst dict1 @ map fst dict2);
          out_dict = map (\<lambda>k. (k, [])) keys
      in fold (\<lambda>d out. fold (\<lambda>(k, i) out. AList.map_entry k (\<lambda>l. l @ i) out) d out)
              [dict1, dict2] out_dict)"

section \<open>Model initialisation\<close>

text \<open>
  The constants of \<open>model_utils.configuration\<close> (a module outside the sources at hand)
  that model initialisation reads are the fields of one record.
\<close>

record configuration =
  YEARS :: "int list"
  DAYS :: "int list"
  HOURS :: "int list"
  ENTITIES :: "string list"
  FLOWS :: "string list"
  YEARSLICE :: real
  TIMESLICE :: real
  DATA :: DataHandler

text \<open>The sets of the Pyomo model; an unordered set is a list without repetition.\<close>

record model =
  Y :: "int list"
  Y0 :: "int list"
  YALL :: "int list"
  D :: "int list"
  DALL :: "int list"
  H :: "int list"
  H0 :: "int list"
  E :: "string list"
  F :: "string list"
  Pros :: "string list"
  Caps :: "string list"
  FiE :: "(string \<times> string) list"
  FoE :: "(string \<times> string) list"

text \<open>\<open>{(f, e) for f in flows for e in f_x[f]}\<close>, where \<open>f_x[f]\<close> raises KeyError.\<close>

definition flow_entity_pairs ::
  "string list \<Rightarrow> (string \<times> string list) list \<Rightarrow> error + (string \<times> string) list" where
  "flow_entity_pairs flows f_x =
     bind_err
       (mapM_err (\<lambda>f. case map_of f_x f of
                         None \<Rightarrow> Inl (KeyError [AStr f])
                       | Some es \<Rightarrow> Inr (map (Pair f) es)) flows)
       (\<lambda>pss. Inr (unique (concat pss)))"

text \<open>\<open>pyo.Set(within=fxe, ...)\<close> refuses a member outside \<open>model.F * model.E\<close>.\<close>

definition set_within ::
  "string list \<Rightarrow> string list \<Rightarrow> (string \<times> string) list \<Rightarrow> error + (string \<times> string) list" where
  "set_within fs es pairs =
     (case filter (\<lambda>(f, e). \<not> (f \<in> set fs \<and> e \<in> set es)) pairs of
        [] \<Rightarrow> Inr pairs
      | (f, e) # _ \<Rightarrow> Inl (ValueError [AStr ''Cannot add value'', ATuple [AStr f, AStr e]]))"

definition init_sets :: "configuration \<Rightarrow> error + model" where
  "init_sets cnf =
     (if YEARS cnf = [] then Inl IndexError
      else if HOURS cnf = [] then Inl IndexError
      else
        (let y = unique (YEARS cnf);
             entities = unique (ENTITIES cnf);
             flows = unique (FLOWS cnf);
             demands = unique (filter (prefix ''dem_'') (ENTITIES cnf));
             processes = filter (\<lambda>e. e \<notin> set demands) entities
         in bind_err (build_cnf_set (DATA cnf) processes ''enable_capacity'') (\<lambda>capacity.
            bind_err (case fxe (DATA cnf) ''FiE'' of
                        None \<Rightarrow> Inl (KeyError [AStr ''FiE''])
                      | Some df \<Rightarrow> Inr (get_flow_entity_dict df False)) (\<lambda>f_in.
            bind_err (case fxe (DATA cnf) ''FoE'' of
                        None \<Rightarrow> Inl (KeyError [AStr ''FoE''])
                      | Some df \<Rightarrow> Inr (get_flow_entity_dict df False)) (\<lambda>f_out.
            bind_err (bind_err (flow_entity_pairs flows f_in) (set_within flows entities)) (\<lambda>fie.
            bind_err (bind_err (flow_entity_pairs flows f_out) (set_within flows entities)) (\<lambda>foe.
              Inr \<lparr>Y = y, Y0 = [hd (YEARS cnf)], YALL = [hd y .. last y],
                   D = unique (DAYS cnf), DALL = [0 .. 364],
                   H = unique (HOURS cnf), H0 = [hd (HOURS cnf)],
                   E = entities, F = flows, Pros = processes, Caps = capacity,
                   FiE = fie, FoE = foe\<rparr>)))))))"

text \<open>
  The decision variables declared by \<open>_init_variables\<close>, each family indexed by the
  product of sets it is declared over; indexing a family outside its index set raises
  KeyError.
\<close>

datatype var =
    Var_ctot string int
  | Var_cnew string int
  | Var_a string int int int
  | Var_fin string string int int int
  | Var_fout string string int int int

definition model_fin :: "model \<Rightarrow> string \<Rightarrow> string \<Rightarrow> int \<Rightarrow> int \<Rightarrow> int \<Rightarrow> error + var" where
  "model_fin m f e y d h =
     (if (f, e) \<in> set (FiE m) \<and> y \<in> set (Y m) \<and> d \<in> set (D m) \<and> h \<in> set (H m)
      then Inr (Var_fin f e y d h)
      else Inl (KeyError [ATuple [AStr f, AStr e, AInt y, AInt d, AInt h]]))"

definition model_fout :: "model \<Rightarrow> string \<Rightarrow> string \<Rightarrow> int \<Rightarrow> int \<Rightarrow> int \<Rightarrow> error + var" where
  "model_fout m f e y d h =
     (if (f, e) \<in> set (FoE m) \<and> y \<in> set (Y m) \<and> d \<in> set (D m) \<and> h \<in> set (H m)
      then Inr (Var_fout f e y d h)
      else Inl (KeyError [ATuple [AStr f, AStr e, AInt y, AInt d, AInt h]]))"

text \<open>
  Python's \<open>sum\<close> of variables is the linear expression adding them, written as the list
  of its terms; the sum of nothing is the integer 0. Comparing two such sums with
  \<open>==\<close> gives a Pyomo equality, except that \<open>0 == 0\<close> is the Python value \<open>True\<close>.
\<close>

datatype relation = PyBool bool | Equality "var list" "var list"

definition c_io_balance :: "model \<Rightarrow> string \<Rightarrow> int \<Rightarrow> int \<Rightarrow> int \<Rightarrow> error + relation" where
  "c_io_balance m flow_id y d h =
     bind_err (mapM_err (\<lambda>(f, e). model_fout m f e y d h)
                 (filter (\<lambda>(f, e). f = flow_id) (FoE m))) (\<lambda>outflows_prev.
     bind_err (mapM_err (\<lambda>(f, e). model_fin m f e y d h)
                 (filter (\<lambda>(f, e). f = flow_id) (FiE m))) (\<lambda>inflows_next.
       Inr (if outflows_prev = [] \<and> inflows_next = [] then PyBool True
            else Equality outflows_prev inflows_next)))"

text \<open>
  \<open>pyo.Constraint(model.F, model.Y, model.D, model.H, rule=_c_io_balance)\<close> calls the
  rule at every index of the product and refuses a rule that returns a Python boolean.
\<close>

definition constraint_at ::
  "model \<Rightarrow> string \<times> int \<times> int \<times> int \<Rightarrow> error + ((string \<times> int \<times> int \<times> int) \<times> relation)" where
  "constraint_at m = (\<lambda>(f, y, d, h).
     bind_err (c_io_balance m f y d h) (\<lambda>r.
       case r of
         PyBool b \<Rightarrow> Inl (ValueError [AStr ''Invalid constraint expression'', AStr f, AInt y, AInt d, AInt h])
       | Equality l r \<Rightarrow> Inr ((f, y, d, h), Equality l r)))"

text \<open>
  The parameters declared by \<open>_init_parameters\<close>. Pyomo evaluates the \<open>initialize\<close>
  rule of a parameter at every index when the parameter is attached to the model, so
  \<open>_discount_rates\<close> runs once for every year of \<open>YALL\<close> and its errors abort
  initialisation. Numbers are reals; rounding and overflow of floating-point arithmetic
  are outside the model. A numpy division of 1 by zero gives infinity, not an error.
\<close>

datatype discount = Finite real | Infinity

record model_parameters =
  YL :: real
  DL :: "((int \<times> int) \<times> real) list"
  HL :: real
  DISC :: "(int \<times> discount) list"

text \<open>
  \<open>1 / np.power(1 + discount, y - model.Y0.first())\<close>, with \<open>discount\<close> read from the
  store: \<open>1 + None\<close> raises TypeError.
\<close>

definition discount_rates :: "configuration \<Rightarrow> model \<Rightarrow> int \<Rightarrow> error + discount" where
  "discount_rates cnf m y =
     (case get_const (DATA cnf) ''country'' ''discount_factor'' of
        Inl err \<Rightarrow> Inl err
      | Inr None \<Rightarrow> Inl TypeError
      | Inr (Some discount) \<Rightarrow>
          (if 1 + discount = 0 \<and> 0 < y - hd (Y0 m) then Inr Infinity
           else Inr (Finite (1 / ((1 + discount) powi (y - hd (Y0 m)))))))"

text \<open>\<open>365 / len(model.D)\<close>; the rule runs at the pairs of \<open>Y\<close> and \<open>D\<close> only.\<close>

definition day_share :: "model \<Rightarrow> int \<Rightarrow> int \<Rightarrow> real" where
  "day_share m y d = 365 / real (length (D m))"

definition init_parameters :: "configuration \<Rightarrow> model \<Rightarrow> error + model_parameters" where
  "init_parameters cnf m =
     bind_err (mapM_err (\<lambda>y. bind_err (discount_rates cnf m y) (\<lambda>v. Inr (y, v))) (YALL m))
       (\<lambda>disc. Inr \<lparr>YL = YEARSLICE cnf,
                     DL = map (\<lambda>(y, d). ((y, d), day_share m y d)) (List.product (Y m) (D m)),
                     HL = TIMESLICE cnf,
                     DISC = disc\<rparr>)"

text \<open>
  The expression rules of \<open>model_generic.generic_expressions\<close> (a module outside the
  sources at hand) are parameters: each takes the model, here its sets and its
  parameters, and an index, and returns an expression of some type \<open>'x\<close> or raises.
  \<open>_init_expressions\<close> attaches the seven expression families in the order of the
  source; Pyomo runs each rule at every index of its family, so the first error aborts
  initialisation.
\<close>

record 'x generic_expressions =
  e_total_annual_inflow :: "model \<Rightarrow> model_parameters \<Rightarrow> string \<Rightarrow> string \<Rightarrow> int \<Rightarrow> error + 'x"
  e_total_annual_outflow :: "model \<Rightarrow> model_parameters \<Rightarrow> string \<Rightarrow> string \<Rightarrow> int \<Rightarrow> error + 'x"
  e_total_annual_activity :: "model \<Rightarrow> model_parameters \<Rightarrow> string \<Rightarrow> int \<Rightarrow> error + 'x"
  e_hourly_capacity_to_activity :: "model \<Rightarrow> model_parameters \<Rightarrow> string \<Rightarrow> int \<Rightarrow> error + 'x"
  e_cost_investment :: "model \<Rightarrow> model_parameters \<Rightarrow> string \<Rightarrow> error + 'x"
  e_cost_fixed_om :: "model \<Rightarrow> model_parameters \<Rightarrow> string \<Rightarrow> error + 'x"
  e_cost_variable_om :: "model \<Rightarrow> model_parameters \<Rightarrow> string \<Rightarrow> error + 'x"

record 'x model_expressions =
  e_TotalAnnualInflow :: "(((string \<times> string) \<times> int) \<times> 'x) list"
  e_TotalAnnualOutflow :: "(((string \<times> string) \<times> int) \<times> 'x) list"
  e_TotalAnnualActivity :: "((string \<times> int) \<times> 'x) list"
  e_HourlyC2A :: "((string \<times> int) \<times> 'x) list"
  e_CostInv :: "(string \<times> 'x) list"
  e_CostFixedOM :: "(string \<times> 'x) list"
  e_CostVarOM :: "(string \<times> 'x) list"

text \<open>\<open>pyo.Expression(index_set, rule=...)\<close>: the rule at every index, in order.\<close>

definition expression_family :: "('i \<Rightarrow> error + 'x) \<Rightarrow> 'i list \<Rightarrow> error + ('i \<times> 'x) list" where
  "expression_family rule idxs = mapM_err (\<lambda>i. bind_err (rule i) (\<lambda>x. Inr (i, x))) idxs"

definition init_expressions ::
  "'x generic_expressions \<Rightarrow> model \<Rightarrow> model_parameters \<Rightarrow> error + 'x model_expressions" where
  "init_expressions gen_expr m ps =
     bind_err (expression_family (\<lambda>((f, e), y). e_total_annual_inflow gen_expr m ps f e y)
                 (List.product (FiE m) (Y m))) (\<lambda>inflow.
     bind_err (expression_family (\<lambda>((f, e), y). e_total_annual_outflow gen_expr m ps f e y)
                 (List.product (FoE m) (Y m))) (\<lambda>outflow.
     bind_err (expression_family (\<lambda>(e, y). e_total_annual_activity gen_expr m ps e y)
                 (List.product (E m) (Y m))) (\<lambda>activity.
     bind_err (expression_family (\<lambda>(e, y). e_hourly_capacity_to_activity gen_expr m ps e y)
                 (List.product (Caps m) (Y m))) (\<lambda>c2a.
     bind_err (expression_family (e_cost_investment gen_expr m ps) (E m)) (\<lambda>inv.
     bind_err (expression_family (e_cost_fixed_om gen_expr m ps) (E m)) (\<lambda>fixed_om.
     bind_err (expression_family (e_cost_variable_om gen_expr m ps) (E m)) (\<lambda>var_om.
       Inr \<lparr>e_TotalAnnualInflow = inflow, e_TotalAnnualOutflow = outflow,
            e_TotalAnnualActivity = activity, e_HourlyC2A = c2a,
            e_CostInv = inv, e_CostFixedOM = fixed_om, e_CostVarOM = var_om\<rparr>)))))))"

text \<open>
  \<open>init_model\<close>: the sets, the variables (the families ctot, cnew, a, fin and fout are
  the constructors of \<open>var\<close>; declaring them cannot fail), the parameters, the
  expressions, and last the constraint family \<open>c_io_balance\<close>.
\<close>

definition init_model ::
  "configuration \<Rightarrow> 'x generic_expressions \<Rightarrow>
   error + model \<times> model_parameters \<times> 'x model_expressions
           \<times> ((string \<times> int \<times> int \<times> int) \<times> relation) list" where
  "init_model cnf gen_expr =
     bind_err (init_sets cnf) (\<lambda>m.
     bind_err (init_parameters cnf m) (\<lambda>ps.
     bind_err (init_expressions gen_expr m ps) (\<lambda>ex.
     bind_err (mapM_err (constraint_at m)
                 (List.product (F m) (List.product (Y m) (List.product (D m) (H m)))))
       (\<lambda>cs. Inr (m, ps, ex, cs)))))"

text \<open>A relation holds under an assignment of reals to the variables.\<close>

fun holds :: "(var \<Rightarrow> real) \<Rightarrow> relation \<Rightarrow> bool" where
  "holds val (PyBool b) = b"
| "holds val (Equality l r) = (sum_list (map val l) = sum_list (map val r))"

section \<open>Construction of the store from a workbook\<close>










section \<open>Example inputs\<close>

text \<open>
  One entity with a record of every kind: an annual value that is NaN in 2020 and 3 in
  2021 over a constant 5, a parameter that is NaN wherever it is stored, per-flow records
  of the same shape, and two configuration flags, one set and one empty.
\<close>

definition tables_example :: entity_tables where
  "tables_example =
     [''annual'' \<mapsto> [KPY ''cost_investment'' (Some 2020) \<mapsto> NaN,
                      KPY ''cost_investment'' (Some 2021) \<mapsto> Number 3,
                      KPY ''lifetime'' (Some 2020) \<mapsto> NaN],
      ''constant'' \<mapsto> [KP ''cost_investment'' \<mapsto> Number 5, KP ''lifetime'' \<mapsto> NaN],
      ''annual_fxe'' \<mapsto> [KPFY ''efficiency'' (Some ''elec'') (Some 2020) \<mapsto> NaN],
      ''constant_fxe'' \<mapsto> [KPF ''efficiency'' (Some ''elec'') \<mapsto> Number 2],
      ''configuration'' \<mapsto> [KP ''enable_capacity'' \<mapsto> Number 1, KP ''enable_trade'' \<mapsto> NaN]]"

definition store_example :: DataHandler where
  "store_example = \<lparr>fxe = Map.empty, params = [''conv_elec_pv'' \<mapsto> tables_example]\<rparr>"

definition store_empty :: DataHandler where
  "store_empty = \<lparr>fxe = Map.empty, params = Map.empty\<rparr>"

text \<open>
  The index tuples that \<open>get_flow_entity_dict\<close> iterates over, and the entities they
  connect to one key, in the order of the tuples.
\<close>

definition index_tuples :: "dataframe \<Rightarrow> bool \<Rightarrow> (string \<times> string) list" where
  "index_tuples io_df by_entity =
     (if \<not> by_entity then stack_index io_df else stack_index (df_T io_df))"

definition connected :: "(string \<times> string) list \<Rightarrow> string \<Rightarrow> string list" where
  "connected tuples k = map fst (filter (\<lambda>(p, f). f = k) tuples)"

text \<open>
  An adjacency table of two entities and three flows, the flow heat connected to nothing,
  and three flow-to-entities dictionaries.
\<close>

definition frame_example :: dataframe where
  "frame_example =
     \<lparr>df_index = [''conv_elec_pv'', ''conv_elec_gas''],
      df_columns = [''elec'', ''gas'', ''heat''],
      df_values = [[Number 1, NaN, NaN], [Number 1, Number 1, NaN]]\<rparr>"

definition dict_in :: "(string \<times> string list) list" where
  "dict_in = [(''elec'', [''conv_heat_pump'']), (''gas'', [''conv_elec_gas''])]"

definition dict_out :: "(string \<times> string list) list" where
  "dict_out = [(''elec'', [''conv_elec_pv'', ''conv_elec_gas''])]"

definition dict_heat :: "(string \<times> string list) list" where
  "dict_heat = [(''heat'', [''conv_heat_pump''])]"

text \<open>
  The two sides of the flow-conservation constraint of one flow at one time index: the
  outflow variables of the pairs of \<open>FoE\<close> with that flow, and the inflow variables of the
  pairs of \<open>FiE\<close> with that flow.
\<close>

definition outflow_vars :: "model \<Rightarrow> string \<Rightarrow> int \<Rightarrow> int \<Rightarrow> int \<Rightarrow> var list" where
  "outflow_vars m flow_id y d h =
     map (\<lambda>(f, e). Var_fout f e y d h) (filter (\<lambda>(f, e). f = flow_id) (FoE m))"

definition inflow_vars :: "model \<Rightarrow> string \<Rightarrow> int \<Rightarrow> int \<Rightarrow> int \<Rightarrow> var list" where
  "inflow_vars m flow_id y d h =
     map (\<lambda>(f, e). Var_fin f e y d h) (filter (\<lambda>(f, e). f = flow_id) (FiE m))"

text \<open>
  Python's truth value of what \<open>check_cnf\<close> returns: \<open>None\<close> and 0 are false, every
  other number is true.
\<close>

fun truth_value :: "real option \<Rightarrow> bool" where
  "truth_value None = False"
| "truth_value (Some v) = (v \<noteq> 0)"

text \<open>
  A configuration of three processes and one demand around one flow, over two years, one
  day and one hour, with the model, the parameters, the expressions and the constraint
  family that initialisation builds from it. The capacity flag of the three processes is
  1, empty and 2. The expression rules of the example return no information.
\<close>

definition store_cnf_example :: DataHandler where
  "store_cnf_example =
     \<lparr>fxe = [''FiE'' \<mapsto> \<lparr>df_index = [''dem_elec''], df_columns = [''elec''],
                          df_values = [[Number 1]]\<rparr>,
             ''FoE'' \<mapsto> \<lparr>df_index = [''conv_elec_pv'', ''conv_elec_gas'', ''conv_elec_wind''],
                          df_columns = [''elec''],
                          df_values = [[Number 1], [Number 1], [Number 1]]\<rparr>],
      params = [''country'' \<mapsto> [''constant'' \<mapsto> [KP ''discount_factor'' \<mapsto> Number (1 / 4)]],
                ''conv_elec_pv'' \<mapsto> [''configuration'' \<mapsto> [KP ''enable_capacity'' \<mapsto> Number 1]],
                ''conv_elec_gas'' \<mapsto> [''configuration'' \<mapsto> [KP ''enable_capacity'' \<mapsto> NaN]],
                ''conv_elec_wind'' \<mapsto> [''configuration'' \<mapsto> [KP ''enable_capacity'' \<mapsto> Number 2]]]\<rparr>"

definition cnf_example :: configuration where
  "cnf_example =
     \<lparr>YEARS = [2020, 2021], DAYS = [0], HOURS = [0],
      ENTITIES = [''conv_elec_pv'', ''conv_elec_gas'', ''conv_elec_wind'', ''dem_elec''],
      FLOWS = [''elec''], YEARSLICE = 1, TIMESLICE = 1, DATA = store_cnf_example\<rparr>"

definition model_example :: model where
  "model_example =
     \<lparr>Y = [2020, 2021], Y0 = [2020], YALL = [2020, 2021], D = [0], DALL = [0 .. 364],
      H = [0], H0 = [0],
      E = [''conv_elec_pv'', ''conv_elec_gas'', ''conv_elec_wind'', ''dem_elec''], F = [''elec''],
      Pros = [''conv_elec_pv'', ''conv_elec_gas'', ''conv_elec_wind''], Caps = [''conv_elec_pv''],
      FiE = [(''elec'', ''dem_elec'')],
      FoE = [(''elec'', ''conv_elec_pv''), (''elec'', ''conv_elec_gas''),
             (''elec'', ''conv_elec_wind'')]\<rparr>"

definition parameters_example :: model_parameters where
  "parameters_example =
     \<lparr>YL = 1, DL = [((2020, 0), 365), ((2021, 0), 365)], HL = 1,
      DISC = [(2020, Finite 1), (2021, Finite (4 / 5))]\<rparr>"

definition gen_expr_example :: "unit generic_expressions" where
  "gen_expr_example =
     \<lparr>e_total_annual_inflow = (\<lambda>m ps f e y. Inr ()),
      e_total_annual_outflow = (\<lambda>m ps f e y. Inr ()),
      e_total_annual_activity = (\<lambda>m ps e y. Inr ()),
      e_hourly_capacity_to_activity = (\<lambda>m ps e y. Inr ()),
      e_cost_investment = (\<lambda>m ps e. Inr ()),
      e_cost_fixed_om = (\<lambda>m ps e. Inr ()),
      e_cost_variable_om = (\<lambda>m ps e. Inr ())\<rparr>"

definition expressions_example :: "unit model_expressions" where
  "expressions_example =
     \<lparr>e_TotalAnnualInflow = map (\<lambda>i. (i, ())) (List.product (FiE model_example) (Y model_example)),
      e_TotalAnnualOutflow = map (\<lambda>i. (i, ())) (List.product (FoE model_example) (Y model_example)),
      e_TotalAnnualActivity = map (\<lambda>i. (i, ())) (List.product (E model_example) (Y model_example)),
      e_HourlyC2A = map (\<lambda>i. (i, ())) (List.product (Caps model_example) (Y model_example)),
      e_CostInv = map (\<lambda>i. (i, ())) (E model_example),
      e_CostFixedOM = map (\<lambda>i. (i, ())) (E model_example),
      e_CostVarOM = map (\<lambda>i. (i, ())) (E model_example)\<rparr>"

definition constraints_example :: "((string \<times> int \<times> int \<times> int) \<times> relation) list" where
  "constraints_example =
     [((''elec'', 2020, 0, 0),
       Equality [Var_fout ''elec'' ''conv_elec_pv'' 2020 0 0,
                 Var_fout ''elec'' ''conv_elec_gas'' 2020 0 0,
                 Var_fout ''elec'' ''conv_elec_wind'' 2020 0 0]
                [Var_fin ''elec'' ''dem_elec'' 2020 0 0]),
      ((''elec'', 2021, 0, 0),
       Equality [Var_fout ''elec'' ''conv_elec_pv'' 2021 0 0,
                 Var_fout ''elec'' ''conv_elec_gas'' 2021 0 0,
                 Var_fout ''elec'' ''conv_elec_wind'' 2021 0 0]
                [Var_fin ''elec'' ''dem_elec'' 2021 0 0])]"










section \<open>Properties of the parameter store\<close>

subsection \<open>The direct accessors on a stored record\<close>

lemma get_annual_rec:
  "params dh e = Some tabs \<Longrightarrow> tabs ''annual'' = Some tb \<Longrightarrow> tb (KPY p (Some y)) = Some c
   \<Longrightarrow> get_annual dh e p y = none_if_nan c"
  by (simp add: get_annual_def lookup3_def bind_err_def)

lemma get_const_rec:
  "params dh e = Some tabs \<Longrightarrow> tabs ''constant'' = Some tb \<Longrightarrow> tb (KP p) = Some c
   \<Longrightarrow> get_const dh e p = none_if_nan c"
  by (simp add: get_const_def lookup3_def)

lemma get_annual_fxe_rec:
  "params dh e = Some tabs \<Longrightarrow> tabs ''annual_fxe'' = Some tb
   \<Longrightarrow> tb (KPFY p (Some f) (Some y)) = Some c
   \<Longrightarrow> get_annual_fxe dh e p f y = none_if_nan c"
  by (simp add: get_annual_fxe_def lookup3_def bind_err_def)

lemma get_const_fxe_rec:
  "params dh e = Some tabs \<Longrightarrow> tabs ''constant_fxe'' = Some tb \<Longrightarrow> tb (KPF p (Some f)) = Some c
   \<Longrightarrow> get_const_fxe dh e p f = none_if_nan c"
  by (simp add: get_const_fxe_def lookup3_def)

lemma check_cnf_rec:
  "params dh e = Some tabs \<Longrightarrow> tabs ''configuration'' = Some tb \<Longrightarrow> tb (KP p) = Some c
   \<Longrightarrow> check_cnf dh e p = none_if_nan c"
  by (simp add: check_cnf_def lookup3_def)

lemma in_tableE:
  "in_table tabs kind k \<Longrightarrow> \<exists>tb c. tabs kind = Some tb \<and> tb k = Some c"
  by (auto simp: in_table_def split: option.splits)

lemma params_store_example: "params store_example ''conv_elec_pv'' = Some tables_example"
  by (simp add: store_example_def)

subsection \<open>The generic queries when no record exists, and when one does\<close>

lemma get_missing:
  assumes "params dh e = Some tabs"
    and "\<not> in_table tabs ''annual'' (KPY p (Some y))"
    and "\<not> in_table tabs ''constant'' (KP p)"
  shows "get dh e p y strict =
     (if strict then Inl (KeyError [AStr ''Parameter'', AStr p, AStr ''not found for'', AStr e])
      else Inr None)"
  using assms by (simp add: get_def bind_err_def)

lemma get_fxe_missing:
  assumes "params dh e = Some tabs"
    and "\<not> in_table tabs ''annual_fxe'' (KPFY p (Some f) (Some y))"
    and "\<not> in_table tabs ''constant_fxe'' (KPF p (Some f))"
  shows "get_fxe dh e p f y strict =
     (if strict then Inl (KeyError [AStr ''Parameter'', AStr p, AStr ''not found for'', AStr e,
                                    AStr ''and'', AStr f])
      else Inr None)"
  using assms by (simp add: get_fxe_def bind_err_def)

lemma get_present_no_KeyError:
  assumes "params dh e = Some tabs"
    and "in_table tabs ''annual'' (KPY p (Some y)) \<or> in_table tabs ''constant'' (KP p)"
  shows "get dh e p y strict \<noteq> Inl (KeyError args)"
proof (cases "in_table tabs ''annual'' (KPY p (Some y))")
  case True
  then obtain tb c where an: "tabs ''annual'' = Some tb" "tb (KPY p (Some y)) = Some c"
    by (auto dest: in_tableE)
  show ?thesis
  proof (cases "in_table tabs ''constant'' (KP p)")
    case True
    then obtain tb' c' where co: "tabs ''constant'' = Some tb'" "tb' (KP p) = Some c'"
      by (auto dest: in_tableE)
    show ?thesis
      using assms(1) an co
      by (cases c; cases c')
         (simp_all add: get_def bind_err_def in_table_def get_annual_rec get_const_rec)
  next
    case False
    with assms(1) an show ?thesis
      by (cases c) (simp_all add: get_def bind_err_def in_table_def get_annual_rec)
  qed
next
  case False
  with assms(2) have "in_table tabs ''constant'' (KP p)" by simp
  then obtain tb' c' where co: "tabs ''constant'' = Some tb'" "tb' (KP p) = Some c'"
    by (auto dest: in_tableE)
  show ?thesis
    using assms(1) False co
    by (cases c') (simp_all add: get_def bind_err_def in_table_def get_const_rec)
qed

lemma get_fxe_present_no_KeyError:
  assumes "params dh e = Some tabs"
    and "in_table tabs ''annual_fxe'' (KPFY p (Some f) (Some y))
         \<or> in_table tabs ''constant_fxe'' (KPF p (Some f))"
  shows "get_fxe dh e p f y strict \<noteq> Inl (KeyError args)"
proof (cases "in_table tabs ''annual_fxe'' (KPFY p (Some f) (Some y))")
  case True
  then obtain tb c
    where an: "tabs ''annual_fxe'' = Some tb" "tb (KPFY p (Some f) (Some y)) = Some c"
    by (auto dest: in_tableE)
  show ?thesis
  proof (cases "in_table tabs ''constant_fxe'' (KPF p (Some f))")
    case True
    then obtain tb' c'
      where co: "tabs ''constant_fxe'' = Some tb'" "tb' (KPF p (Some f)) = Some c'"
      by (auto dest: in_tableE)
    show ?thesis
      using assms(1) an co
      by (cases c; cases c')
         (simp_all add: get_fxe_def bind_err_def in_table_def get_annual_fxe_rec
            get_const_fxe_rec)
  next
    case False
    with assms(1) an show ?thesis
      by (cases c) (simp_all add: get_fxe_def bind_err_def in_table_def get_annual_fxe_rec)
  qed
next
  case False
  with assms(2) have "in_table tabs ''constant_fxe'' (KPF p (Some f))" by simp
  then obtain tb' c'
    where co: "tabs ''constant_fxe'' = Some tb'" "tb' (KPF p (Some f)) = Some c'"
    by (auto dest: in_tableE)
  show ?thesis
    using assms(1) False co
    by (cases c') (simp_all add: get_fxe_def bind_err_def in_table_def get_const_fxe_rec)
qed

subsection \<open>Precedence of the annual record\<close>

text \<open>
  Claim C1, as stated, fails: with an annual record that is NaN and a constant record
  holding 5, the non-strict \<open>get\<close> returns 5, the constant value, while the value of the
  annual record is absence.
\<close>

theorem get_annual_nan_returns_constant_counterexample:
  "get_annual store_example ''conv_elec_pv'' ''cost_investment'' 2020 = Inr None
   \<and> get_const store_example ''conv_elec_pv'' ''cost_investment'' = Inr (Some 5)
   \<and> get store_example ''conv_elec_pv'' ''cost_investment'' 2020 False
       \<noteq> get_annual store_example ''conv_elec_pv'' ''cost_investment'' 2020
   \<and> get store_example ''conv_elec_pv'' ''cost_investment'' 2020 False
       = get_const store_example ''conv_elec_pv'' ''cost_investment''"
  by (simp add: store_example_def tables_example_def get_def get_annual_def get_const_def
      lookup3_def in_table_def bind_err_def)

text \<open>
  Claim C1, amended: for every entity, parameter name and year such that the store holds an
  annual record keyed (parameter, year) whose value is a number, \<open>get\<close> returns that
  number, whatever the constant table holds for the parameter (and under either setting
  of the strictness flag).
\<close>

theorem get_annual_number_precedence:
  assumes "params dh e = Some tabs"
    and "tabs ''annual'' = Some an"
    and "an (KPY p (Some y)) = Some (Number v)"
  shows "get dh e p y strict = Inr (Some v)"
  using assms by (simp add: get_def in_table_def bind_err_def get_annual_rec)

theorem get_annual_number_precedence_witness:
  "params store_example ''conv_elec_pv'' = Some tables_example
   \<and> (\<exists>an. tables_example ''annual'' = Some an
           \<and> an (KPY ''cost_investment'' (Some 2021)) = Some (Number 3))
   \<and> in_table tables_example ''constant'' (KP ''cost_investment'')
   \<and> get store_example ''conv_elec_pv'' ''cost_investment'' 2021 False = Inr (Some 3)"
proof -
  let ?an = "[KPY ''cost_investment'' (Some 2020) \<mapsto> NaN,
              KPY ''cost_investment'' (Some 2021) \<mapsto> Number 3,
              KPY ''lifetime'' (Some 2020) \<mapsto> NaN]"
  have h2: "tables_example ''annual'' = Some ?an"
    by (simp add: tables_example_def)
  have h3: "?an (KPY ''cost_investment'' (Some 2021)) = Some (Number 3)"
    by simp
  have c: "in_table tables_example ''constant'' (KP ''cost_investment'')"
    by (simp add: in_table_def tables_example_def)
  from get_annual_number_precedence [OF params_store_example h2 h3, of False]
  show ?thesis using params_store_example h2 h3 c by blast
qed

subsection \<open>A NaN annual record falls through to the constant\<close>

text \<open>
  Claim C2: when the annual record of (entity, parameter, year) is NaN and the constant
  record of (entity, parameter) holds the number \<open>v\<close>, \<open>get\<close> returns \<open>v\<close>, not absence;
  likewise \<open>get_fxe\<close> returns the number of the constant-per-flow record when the
  annual-per-flow record is NaN.
\<close>

theorem get_nan_annual_falls_through:
  assumes "params dh e = Some tabs"
  shows "(tabs ''annual'' = Some an \<and> an (KPY p (Some y)) = Some NaN
          \<and> tabs ''constant'' = Some co \<and> co (KP p) = Some (Number v)
          \<longrightarrow> get dh e p y strict = Inr (Some v))
       \<and> (tabs ''annual_fxe'' = Some anf \<and> anf (KPFY q (Some f) (Some y)) = Some NaN
          \<and> tabs ''constant_fxe'' = Some cof \<and> cof (KPF q (Some f)) = Some (Number w)
          \<longrightarrow> get_fxe dh e q f y strict = Inr (Some w))"
  using assms
  by (simp add: get_def get_fxe_def in_table_def bind_err_def get_annual_rec get_const_rec
      get_annual_fxe_rec get_const_fxe_rec)

theorem get_nan_annual_falls_through_witness:
  "get store_example ''conv_elec_pv'' ''cost_investment'' 2020 False = Inr (Some 5)
   \<and> get_fxe store_example ''conv_elec_pv'' ''efficiency'' ''elec'' 2020 False = Inr (Some 2)"
proof -
  let ?an = "[KPY ''cost_investment'' (Some 2020) \<mapsto> NaN,
              KPY ''cost_investment'' (Some 2021) \<mapsto> Number 3,
              KPY ''lifetime'' (Some 2020) \<mapsto> NaN]"
  let ?co = "[KP ''cost_investment'' \<mapsto> Number 5, KP ''lifetime'' \<mapsto> NaN]"
  let ?anf = "[KPFY ''efficiency'' (Some ''elec'') (Some 2020) \<mapsto> NaN]"
  let ?cof = "[KPF ''efficiency'' (Some ''elec'') \<mapsto> Number 2]"
  have t: "tables_example ''annual'' = Some ?an" "tables_example ''constant'' = Some ?co"
    "tables_example ''annual_fxe'' = Some ?anf" "tables_example ''constant_fxe'' = Some ?cof"
    by (simp_all add: tables_example_def)
  have r: "?an (KPY ''cost_investment'' (Some 2020)) = Some NaN"
    "?co (KP ''cost_investment'') = Some (Number 5)"
    "?anf (KPFY ''efficiency'' (Some ''elec'') (Some 2020)) = Some NaN"
    "?cof (KPF ''efficiency'' (Some ''elec'')) = Some (Number 2)"
    by simp_all
  from get_nan_annual_falls_through [OF params_store_example,
      of ?an "''cost_investment''" 2020 ?co 5 False ?anf "''efficiency''" "''elec''" ?cof 2]
  show ?thesis using t r by blast
qed

subsection \<open>Strict and non-strict access to a missing record\<close>

text \<open>
  Claim C3, as stated, fails: for an entity the store does not hold, no record exists in
  any table, and yet the non-strict \<open>get\<close> and \<open>get_fxe\<close> raise KeyError (from
  \<open>self.params[entity_id]\<close>) instead of returning absence.
\<close>

theorem get_unknown_entity_raises_counterexample:
  "params store_empty ''conv_elec_pv'' = None
   \<and> get store_empty ''conv_elec_pv'' ''cost_investment'' 2020 False
       = Inl (KeyError [AStr ''conv_elec_pv''])
   \<and> get_fxe store_empty ''conv_elec_pv'' ''efficiency'' ''elec'' 2020 False
       = Inl (KeyError [AStr ''conv_elec_pv''])"
  by (simp add: store_empty_def get_def get_fxe_def)

text \<open>
  Claim C3, amended: for every entity that the store holds, every parameter name, year
  (and flow): the strict \<open>get\<close> raises a KeyError exactly when neither the annual nor
  the constant table of the entity has a record for the key, the error then being the
  not-found error naming the parameter and the entity; the non-strict \<open>get\<close> returns
  absence for such a key. The same holds for \<open>get_fxe\<close> with the annual-per-flow and
  constant-per-flow tables.
\<close>

theorem strict_get_raises_iff_missing:
  assumes "params dh e = Some tabs"
  shows "((\<exists>args. get dh e p y True = Inl (KeyError args))
            \<longleftrightarrow> \<not> in_table tabs ''annual'' (KPY p (Some y)) \<and> \<not> in_table tabs ''constant'' (KP p))
       \<and> (\<not> in_table tabs ''annual'' (KPY p (Some y)) \<and> \<not> in_table tabs ''constant'' (KP p)
            \<longrightarrow> get dh e p y True
                  = Inl (KeyError [AStr ''Parameter'', AStr p, AStr ''not found for'', AStr e])
                \<and> get dh e p y False = Inr None)
       \<and> ((\<exists>args. get_fxe dh e p f y True = Inl (KeyError args))
            \<longleftrightarrow> \<not> in_table tabs ''annual_fxe'' (KPFY p (Some f) (Some y))
                \<and> \<not> in_table tabs ''constant_fxe'' (KPF p (Some f)))
       \<and> (\<not> in_table tabs ''annual_fxe'' (KPFY p (Some f) (Some y))
            \<and> \<not> in_table tabs ''constant_fxe'' (KPF p (Some f))
            \<longrightarrow> get_fxe dh e p f y True
                  = Inl (KeyError [AStr ''Parameter'', AStr p, AStr ''not found for'', AStr e,
                                   AStr ''and'', AStr f])
                \<and> get_fxe dh e p f y False = Inr None)"
proof -
  have a: "(\<exists>args. get dh e p y True = Inl (KeyError args))
            \<longleftrightarrow> \<not> in_table tabs ''annual'' (KPY p (Some y)) \<and> \<not> in_table tabs ''constant'' (KP p)"
    using get_missing [OF assms, of p y True] get_present_no_KeyError [OF assms, of p y True]
    by auto
  have b: "(\<exists>args. get_fxe dh e p f y True = Inl (KeyError args))
            \<longleftrightarrow> \<not> in_table tabs ''annual_fxe'' (KPFY p (Some f) (Some y))
                \<and> \<not> in_table tabs ''constant_fxe'' (KPF p (Some f))"
    using get_fxe_missing [OF assms, of p f y True]
      get_fxe_present_no_KeyError [OF assms, of p f y True]
    by auto
  show ?thesis
    using a b get_missing [OF assms, of p y] get_fxe_missing [OF assms, of p f y]
    by simp
qed

theorem strict_get_raises_iff_missing_witness:
  "\<not> in_table tables_example ''annual'' (KPY ''cost_fixed_om'' (Some 2020))
   \<and> \<not> in_table tables_example ''constant'' (KP ''cost_fixed_om'')
   \<and> \<not> in_table tables_example ''annual_fxe'' (KPFY ''cost_fixed_om'' (Some ''elec'') (Some 2020))
   \<and> \<not> in_table tables_example ''constant_fxe'' (KPF ''cost_fixed_om'' (Some ''elec''))
   \<and> get store_example ''conv_elec_pv'' ''cost_fixed_om'' 2020 True
       = Inl (KeyError [AStr ''Parameter'', AStr ''cost_fixed_om'', AStr ''not found for'',
                        AStr ''conv_elec_pv''])
   \<and> get store_example ''conv_elec_pv'' ''cost_fixed_om'' 2020 False = Inr None
   \<and> get_fxe store_example ''conv_elec_pv'' ''cost_fixed_om'' ''elec'' 2020 True
       = Inl (KeyError [AStr ''Parameter'', AStr ''cost_fixed_om'', AStr ''not found for'',
                        AStr ''conv_elec_pv'', AStr ''and'', AStr ''elec''])
   \<and> get_fxe store_example ''conv_elec_pv'' ''cost_fixed_om'' ''elec'' 2020 False = Inr None"
proof -
  have m: "\<not> in_table tables_example ''annual'' (KPY ''cost_fixed_om'' (Some 2020))"
    "\<not> in_table tables_example ''constant'' (KP ''cost_fixed_om'')"
    "\<not> in_table tables_example ''annual_fxe'' (KPFY ''cost_fixed_om'' (Some ''elec'') (Some 2020))"
    "\<not> in_table tables_example ''constant_fxe'' (KPF ''cost_fixed_om'' (Some ''elec''))"
    by (simp_all add: in_table_def tables_example_def)
  from strict_get_raises_iff_missing [OF params_store_example,
      of "''cost_fixed_om''" 2020 "''elec''"]
  show ?thesis using m by blast
qed

subsection \<open>NaN records surface as absence\<close>

text \<open>
  Claim C4, as stated, fails for \<open>get\<close>: the annual record of the example is NaN, and the
  non-strict \<open>get\<close> returns 5, taken from the constant table, not absence.
\<close>

theorem get_nan_other_table_number_counterexample:
  "lookup3 store_example ''conv_elec_pv'' ''annual'' (KPY ''cost_investment'' (Some 2020)) = Inr NaN
   \<and> get store_example ''conv_elec_pv'' ''cost_investment'' 2020 False = Inr (Some 5)
   \<and> get store_example ''conv_elec_pv'' ''cost_investment'' 2020 False \<noteq> Inr None"
  by (simp add: store_example_def tables_example_def get_def get_annual_def get_const_def
      lookup3_def in_table_def bind_err_def)

text \<open>
  Claim C4, amended: for every record stored as NaN, \<open>get_const\<close> and \<open>get_annual\<close>
  return absence, not zero, and do not raise; the non-strict \<open>get\<close> returns absence for
  a NaN annual record when the constant table has no record of the parameter or a NaN
  one, and for a NaN constant record when the annual table has no record of the key.
\<close>

theorem nan_record_is_absence:
  assumes "params dh e = Some tabs"
  shows "(tabs ''constant'' = Some co \<and> co (KP p) = Some NaN
            \<longrightarrow> get_const dh e p = Inr None \<and> get_const dh e p \<noteq> Inr (Some 0))
       \<and> (tabs ''annual'' = Some an \<and> an (KPY p (Some y)) = Some NaN
            \<longrightarrow> get_annual dh e p y = Inr None \<and> get_annual dh e p y \<noteq> Inr (Some 0))
       \<and> (tabs ''annual'' = Some an \<and> an (KPY p (Some y)) = Some NaN
            \<and> (\<not> in_table tabs ''constant'' (KP p)
                \<or> (tabs ''constant'' = Some co \<and> co (KP p) = Some NaN))
            \<longrightarrow> get dh e p y False = Inr None)
       \<and> (tabs ''constant'' = Some co \<and> co (KP p) = Some NaN
            \<and> \<not> in_table tabs ''annual'' (KPY p (Some y))
            \<longrightarrow> get dh e p y False = Inr None)"
  using assms
  by (auto simp add: get_def in_table_def bind_err_def get_annual_rec get_const_rec)

theorem nan_record_is_absence_witness:
  "get_const store_example ''conv_elec_pv'' ''lifetime'' = Inr None
   \<and> get_annual store_example ''conv_elec_pv'' ''lifetime'' 2020 = Inr None
   \<and> get store_example ''conv_elec_pv'' ''lifetime'' 2020 False = Inr None
   \<and> get store_example ''conv_elec_pv'' ''lifetime'' 2021 False = Inr None"
proof -
  let ?an = "[KPY ''cost_investment'' (Some 2020) \<mapsto> NaN,
              KPY ''cost_investment'' (Some 2021) \<mapsto> Number 3,
              KPY ''lifetime'' (Some 2020) \<mapsto> NaN]"
  let ?co = "[KP ''cost_investment'' \<mapsto> Number 5, KP ''lifetime'' \<mapsto> NaN]"
  have t: "tables_example ''annual'' = Some ?an" "tables_example ''constant'' = Some ?co"
    by (simp_all add: tables_example_def)
  have r: "?an (KPY ''lifetime'' (Some 2020)) = Some NaN" "?co (KP ''lifetime'') = Some NaN"
    by simp_all
  have n: "\<not> in_table tables_example ''annual'' (KPY ''lifetime'' (Some 2021))"
    by (simp add: in_table_def tables_example_def)
  from nan_record_is_absence [OF params_store_example, of ?co "''lifetime''" ?an 2020]
    nan_record_is_absence [OF params_store_example, of ?co "''lifetime''" ?an 2021]
  show ?thesis using t r n by blast
qed

subsection \<open>Configuration flags\<close>

text \<open>
  Claim C10: for a configuration record of (entity, parameter), \<open>check_cnf\<close> returns
  absence when the option is unset (the stored value is NaN), without raising, and the
  numeric flag value otherwise.
\<close>

theorem check_cnf_unset_or_flag:
  assumes "params dh e = Some tabs" and "tabs ''configuration'' = Some cf"
  shows "(cf (KP p) = Some NaN \<longrightarrow> check_cnf dh e p = Inr None)
       \<and> (cf (KP p) = Some (Number v) \<longrightarrow> check_cnf dh e p = Inr (Some v))"
  using assms by (simp add: check_cnf_rec)

theorem check_cnf_unset_or_flag_witness:
  "check_cnf store_example ''conv_elec_pv'' ''enable_trade'' = Inr None
   \<and> check_cnf store_example ''conv_elec_pv'' ''enable_capacity'' = Inr (Some 1)"
proof -
  let ?cf = "[KP ''enable_capacity'' \<mapsto> Number 1, KP ''enable_trade'' \<mapsto> NaN]"
  have t: "tables_example ''configuration'' = Some ?cf"
    by (simp add: tables_example_def)
  have r: "?cf (KP ''enable_trade'') = Some NaN" "?cf (KP ''enable_capacity'') = Some (Number 1)"
    by simp_all
  from check_cnf_unset_or_flag [OF params_store_example t, of "''enable_trade''"]
    check_cnf_unset_or_flag [OF params_store_example t, of "''enable_capacity''" 1]
  show ?thesis using r by blast
qed

section \<open>Properties of the flow-to-entity dictionaries\<close>

lemma set_unique [simp]: "set (unique xs) = set xs"
  by (simp add: unique_def)

lemma distinct_unique [simp]: "distinct (unique xs)"
  by (simp add: unique_def)


lemma map_of_init_dict:
  "map_of (fold (\<lambda>f d. AList.update f [] d) fs d0) k
     = (if k \<in> set fs then Some [] else map_of d0 k)"
  by (induction fs arbitrary: d0) (auto simp: update_conv')

lemma distinct_init_dict:
  "distinct (map fst d0) \<Longrightarrow> distinct (map fst (fold (\<lambda>f d. AList.update f [] d) fs d0))"
  by (induction fs arbitrary: d0) (auto simp: distinct_update)

lemma map_of_setdefault_append:
  "map_of (setdefault_append f p d)
     = (map_of d)(f \<mapsto> (case map_of d f of None \<Rightarrow> [] | Some v \<Rightarrow> v) @ [p])"
  by (simp add: setdefault_append_def update_conv' split: option.splits)

lemma distinct_setdefault_append:
  "distinct (map fst d) \<Longrightarrow> distinct (map fst (setdefault_append f p d))"
  by (simp add: setdefault_append_def distinct_update split: option.splits)

lemma map_of_fold_append:
  "map_of (fold (\<lambda>(p, f) d. setdefault_append f p d) tuples d) k
     = (if connected tuples k = [] then map_of d k
        else Some ((case map_of d k of None \<Rightarrow> [] | Some v \<Rightarrow> v) @ connected tuples k))"
proof (induction tuples arbitrary: d)
  case Nil
  show ?case by (simp add: connected_def)
next
  case (Cons t tuples)
  obtain p f where t: "t = (p, f)" by (cases t)
  show ?case
    unfolding t
    by (simp add: Cons.IH map_of_setdefault_append connected_def split: option.splits)
qed

lemma distinct_fold_append:
  "distinct (map fst d)
   \<Longrightarrow> distinct (map fst (fold (\<lambda>(p, f) d. setdefault_append f p d) tuples d))"
  by (induction tuples arbitrary: d) (auto simp: distinct_setdefault_append)

lemma map_of_filter_snd:
  "distinct (map fst d)
   \<Longrightarrow> map_of (filter (\<lambda>(k, v). Q v) d) k
       = (case map_of d k of None \<Rightarrow> None | Some v \<Rightarrow> if Q v then Some v else None)"
proof (induction d)
  case Nil
  show ?case by simp
next
  case (Cons x d)
  obtain k' v' where x: "x = (k', v')" by (cases x)
  from Cons.prems have nk: "k' \<notin> fst ` set d" and dd: "distinct (map fst d)"
    by (simp_all add: x)
  from nk have none: "map_of d k' = None"
    by (simp add: map_of_eq_None_iff)
  show ?case
    using Cons.IH [OF dd] none
    by (auto simp: x split: option.splits)
qed

lemma map_of_get_flow_entity_dict:
  "map_of (get_flow_entity_dict io_df by_entity) k
     = (if connected (index_tuples io_df by_entity) k = [] then None
        else Some (connected (index_tuples io_df by_entity) k))"
proof -
  let ?d0 = "fold (\<lambda>f d. AList.update f [] d) (df_columns io_df) []"
  let ?d = "fold (\<lambda>(p, f) d. setdefault_append f p d) (index_tuples io_df by_entity) ?d0"
  have dist: "distinct (map fst ?d)"
    by (intro distinct_fold_append distinct_init_dict) simp
  have eq: "get_flow_entity_dict io_df by_entity = filter (\<lambda>(k, v). v \<noteq> []) ?d"
    by (simp add: get_flow_entity_dict_def index_tuples_def Let_def)
  show ?thesis
    unfolding eq map_of_filter_snd [OF dist]
    by (simp add: map_of_fold_append map_of_init_dict)
qed

text \<open>
  Claim C6: for every adjacency table, and in either grouping mode, no key of the
  dictionary returned by \<open>get_flow_entity_dict\<close> maps to the empty list: a key is in
  the result exactly when some index tuple connects an entity to it, and it maps to the
  list of those entities; a flow connected to no entity is not a key.
\<close>

theorem get_flow_entity_dict_no_empty_flow:
  "[] \<notin> snd ` set (get_flow_entity_dict io_df by_entity)
   \<and> map_of (get_flow_entity_dict io_df by_entity) k
       = (if connected (index_tuples io_df by_entity) k = [] then None
          else Some (connected (index_tuples io_df by_entity) k))"
proof -
  have "[] \<notin> snd ` set (get_flow_entity_dict io_df by_entity)"
    by (auto simp: get_flow_entity_dict_def Let_def)
  then show ?thesis
    by (simp add: map_of_get_flow_entity_dict)
qed

theorem get_flow_entity_dict_no_empty_flow_witness:
  "get_flow_entity_dict frame_example False
     = [(''elec'', [''conv_elec_pv'', ''conv_elec_gas'']), (''gas'', [''conv_elec_gas''])]
   \<and> map_of (get_flow_entity_dict frame_example False) ''heat'' = None
   \<and> [] \<notin> snd ` set (get_flow_entity_dict frame_example False)"
proof -
  have e: "get_flow_entity_dict frame_example False
     = [(''elec'', [''conv_elec_pv'', ''conv_elec_gas'']), (''gas'', [''conv_elec_gas''])]"
    by (simp add: get_flow_entity_dict_def frame_example_def stack_index_def
        setdefault_append_def Let_def)
  from get_flow_entity_dict_no_empty_flow [of frame_example False "''heat''"]
  show ?thesis using e by simp
qed

subsection \<open>Merging\<close>

lemma map_of_empty_lists:
  "map_of (map (\<lambda>k. (k, [])) ks) k = (if k \<in> set ks then Some [] else None)"
  by (induction ks) auto

lemma map_of_fold_extend:
  "distinct (map fst d) \<Longrightarrow>
   map_of (fold (\<lambda>(k, i) out. AList.map_entry k (\<lambda>l. l @ i) out) d out) k
     = (case map_of out k of
          None \<Rightarrow> None
        | Some l \<Rightarrow> Some (l @ (case map_of d k of None \<Rightarrow> [] | Some i \<Rightarrow> i)))"
proof (induction d arbitrary: out)
  case Nil
  show ?case by (simp split: option.splits)
next
  case (Cons x d)
  obtain k' i' where x: "x = (k', i')" by (cases x)
  from Cons.prems have nk: "map_of d k' = None" and dd: "distinct (map fst d)"
    by (simp_all add: x map_of_eq_None_iff)
  show ?case
    using nk
    by (auto simp: x Cons.IH [OF dd] map_of_map_entry split: option.splits)
qed

lemma fst_map_entry: "map fst (AList.map_entry k f xs) = map fst xs"
  by (induction xs) auto

lemma fst_fold_extend:
  "map fst (fold (\<lambda>(k, i) out. AList.map_entry k (\<lambda>l. l @ i) out) d out) = map fst out"
proof (induction d arbitrary: out)
  case Nil
  show ?case by simp
next
  case (Cons x d)
  obtain k' i' where x: "x = (k', i')" by (cases x)
  show ?case by (simp add: x Cons.IH fst_map_entry)
qed

lemma map_of_merge_dicts:
  assumes "distinct (map fst dict1)" and "distinct (map fst dict2)"
  shows "map_of (merge_dicts dict1 dict2) k
     = (case (map_of dict1 k, map_of dict2 k) of
          (None, None) \<Rightarrow> None
        | (Some l1, None) \<Rightarrow> Some l1
        | (None, Some l2) \<Rightarrow> Some l2
        | (Some l1, Some l2) \<Rightarrow> Some (l1 @ l2))"
proof -
  have dom1: "k \<in> fst ` set dict1 \<longleftrightarrow> map_of dict1 k \<noteq> None"
    by (simp add: map_of_eq_None_iff)
  have dom2: "k \<in> fst ` set dict2 \<longleftrightarrow> map_of dict2 k \<noteq> None"
    by (simp add: map_of_eq_None_iff)
  show ?thesis
    using dom1 dom2
    by (auto simp: merge_dicts_def Let_def map_of_fold_extend [OF assms(1)]
        map_of_fold_extend [OF assms(2)] map_of_empty_lists split: option.splits)
qed

lemma keys_merge_dicts:
  "map fst (merge_dicts dict1 dict2) = unique (map fst dict1 @ map fst dict2)"
  by (simp add: merge_dicts_def Let_def fst_fold_extend comp_def)

text \<open>
  Claim C7: for two flow-to-entities dictionaries, \<open>merge_dicts\<close> returns the union of
  the two when their key sets are disjoint; for a key of both, the merged list is the
  list of the first followed by the list of the second, so its length is the sum of the
  two lengths; a key of one input only keeps the list of that input, whether or not the
  two inputs share other keys, so every entry of both inputs is kept; a key of neither is
  not a key of the result.
\<close>

theorem merge_dicts_union_and_concat:
  assumes "distinct (map fst dict1)" and "distinct (map fst dict2)"
  shows "(fst ` set dict1 \<inter> fst ` set dict2 = {}
            \<longrightarrow> map_of (merge_dicts dict1 dict2) = map_of dict1 ++ map_of dict2)
       \<and> (map_of dict1 k = Some l1 \<and> map_of dict2 k = Some l2
            \<longrightarrow> map_of (merge_dicts dict1 dict2) k = Some (l1 @ l2)
                \<and> (\<exists>l. map_of (merge_dicts dict1 dict2) k = Some l
                        \<and> length l = length l1 + length l2))
       \<and> (map_of dict1 k = Some l1 \<and> map_of dict2 k = None
            \<longrightarrow> map_of (merge_dicts dict1 dict2) k = Some l1)
       \<and> (map_of dict1 k = None \<and> map_of dict2 k = Some l2
            \<longrightarrow> map_of (merge_dicts dict1 dict2) k = Some l2)
       \<and> (map_of dict1 k = None \<and> map_of dict2 k = None
            \<longrightarrow> map_of (merge_dicts dict1 dict2) k = None)
       \<and> distinct (map fst (merge_dicts dict1 dict2))
       \<and> fst ` set (merge_dicts dict1 dict2) = fst ` set dict1 \<union> fst ` set dict2"
proof -
  have disj: "map_of (merge_dicts dict1 dict2) = map_of dict1 ++ map_of dict2"
    if "fst ` set dict1 \<inter> fst ` set dict2 = {}"
  proof
    fix k'
    have "\<not> (map_of dict1 k' \<noteq> None \<and> map_of dict2 k' \<noteq> None)"
      using that by (auto simp: map_of_eq_None_iff)
    then show "map_of (merge_dicts dict1 dict2) k' = (map_of dict1 ++ map_of dict2) k'"
      by (auto simp: map_of_merge_dicts [OF assms] map_add_def split: option.splits)
  qed
  have keys: "fst ` set (merge_dicts dict1 dict2) = fst ` set dict1 \<union> fst ` set dict2"
    using arg_cong [OF keys_merge_dicts [of dict1 dict2], of set] by (simp add: image_Un)
  show ?thesis
    using disj keys
    by (simp add: map_of_merge_dicts [OF assms] keys_merge_dicts)
qed

theorem merge_dicts_union_and_concat_witness:
  "fst ` set dict_out \<inter> fst ` set dict_heat = {}
   \<and> map_of (merge_dicts dict_out dict_heat) = map_of dict_out ++ map_of dict_heat
   \<and> map_of (merge_dicts dict_in dict_out) ''elec''
       = Some [''conv_heat_pump'', ''conv_elec_pv'', ''conv_elec_gas'']
   \<and> map_of (merge_dicts dict_in dict_out) ''gas'' = Some [''conv_elec_gas'']
   \<and> map_of (merge_dicts dict_out dict_in) ''gas'' = Some [''conv_elec_gas'']
   \<and> map_of (merge_dicts dict_in dict_out) ''heat'' = None"
proof -
  have d: "distinct (map fst dict_in)" "distinct (map fst dict_out)" "distinct (map fst dict_heat)"
    by (simp_all add: dict_in_def dict_out_def dict_heat_def)
  have i: "fst ` set dict_out \<inter> fst ` set dict_heat = {}"
    by (simp add: dict_out_def dict_heat_def)
  have l: "map_of dict_in ''elec'' = Some [''conv_heat_pump'']"
    "map_of dict_out ''elec'' = Some [''conv_elec_pv'', ''conv_elec_gas'']"
    "map_of dict_in ''gas'' = Some [''conv_elec_gas'']"
    "map_of dict_out ''gas'' = None"
    "map_of dict_in ''heat'' = None"
    "map_of dict_out ''heat'' = None"
    by (simp_all add: dict_in_def dict_out_def)
  from merge_dicts_union_and_concat [OF d(2) d(3)]
    merge_dicts_union_and_concat [OF d(1) d(2), of "''elec''" "[''conv_heat_pump'']"
      "[''conv_elec_pv'', ''conv_elec_gas'']"]
    merge_dicts_union_and_concat [OF d(1) d(2), of "''gas''" "[''conv_elec_gas'']"]
    merge_dicts_union_and_concat [OF d(2) d(1), of "''gas''" _ "[''conv_elec_gas'']"]
    merge_dicts_union_and_concat [OF d(1) d(2), of "''heat''"]
  show ?thesis using i l by simp
qed

section \<open>Properties of model initialisation\<close>

lemma mapM_err_Inr:
  "mapM_err f xs = Inr ys \<Longrightarrow> list_all2 (\<lambda>x y. f x = Inr y) xs ys"
  by (induction xs arbitrary: ys) (auto split: sum.splits)

lemma mapM_err_total:
  "(\<And>x. x \<in> set xs \<Longrightarrow> f x = Inr (g x)) \<Longrightarrow> mapM_err f xs = Inr (map g xs)"
  by (induction xs) auto

lemma build_cnf_set_Inr:
  assumes "build_cnf_set dh es p = Inr caps"
  shows "set caps = {i \<in> set es. check_cnf dh i p = Inr (Some 1)}"
proof -
  from assms obtain flags
    where fl: "mapM_err (\<lambda>i. bind_err (check_cnf dh i p) (\<lambda>v. Inr (i, v))) es = Inr flags"
      and caps: "caps = map fst (filter (\<lambda>(i, v). v = Some 1) flags)"
    by (auto simp: build_cnf_set_def bind_err_def split: sum.splits)
  have "list_all2 (\<lambda>i y. check_cnf dh i p = Inr (snd y) \<and> fst y = i) es flags"
    using mapM_err_Inr [OF fl]
    by (rule list_all2_mono) (auto simp: bind_err_def split: sum.splits)
  then have "set (map fst (filter (\<lambda>(i, v). v = Some 1) flags))
      = {i \<in> set es. check_cnf dh i p = Inr (Some 1)}"
  proof (induction es flags rule: list_all2_induct)
    case Nil
    show ?case by simp
  next
    case (Cons i es0 y ys)
    then show ?case by (cases y) auto
  qed
  with caps show ?thesis by simp
qed

lemma init_sets_Inr:
  assumes "init_sets cnf = Inr m"
  shows "E m = unique (ENTITIES cnf)"
    and "Pros m = filter (\<lambda>e. e \<notin> set (unique (filter (prefix ''dem_'') (ENTITIES cnf))))
                    (unique (ENTITIES cnf))"
    and "build_cnf_set (DATA cnf) (Pros m) ''enable_capacity'' = Inr (Caps m)"
  using assms
  by (auto simp: init_sets_def Let_def bind_err_def split: if_splits sum.splits)

lemma init_sets_example: "init_sets cnf_example = Inr model_example"
  by (simp add: init_sets_def cnf_example_def store_cnf_example_def model_example_def Let_def
      bind_err_def build_cnf_set_def check_cnf_def lookup3_def unique_def
      get_flow_entity_dict_def stack_index_def setdefault_append_def flow_entity_pairs_def
      set_within_def)

subsection \<open>The capacity-enabled entities\<close>

text \<open>
  Claim C9, as stated, fails: the capacity flag of \<open>conv_elec_wind\<close> is 2, so
  \<open>check_cnf\<close> returns 2 for it, which is true as a Python value, and the process is
  not in the capacity-enabled set.
\<close>

theorem truthy_flag_not_enabled_counterexample:
  "init_sets cnf_example = Inr model_example
   \<and> ''conv_elec_wind'' \<in> set (Pros model_example)
   \<and> check_cnf (DATA cnf_example) ''conv_elec_wind'' ''enable_capacity'' = Inr (Some 2)
   \<and> truth_value (Some 2)
   \<and> ''conv_elec_wind'' \<notin> set (Caps model_example)"
  by (simp add: init_sets_example)
     (simp add: model_example_def cnf_example_def store_cnf_example_def check_cnf_def
        lookup3_def)

text \<open>
  Claim C9, amended: when set initialisation succeeds, the processes are the entities
  whose identifier does not start with the demand prefix \<open>dem_\<close>, and the
  capacity-enabled set is exactly the set of processes for which
  \<open>check_cnf(entity, "enable_capacity")\<close> returns the flag value 1 (the comparison
  \<open>== 1\<close> of \<open>build_cnf_set\<close>; Python's \<open>True\<close> equals 1): every such process is a member
  and no other entity is.
\<close>

theorem caps_are_enabled_processes:
  assumes "init_sets cnf = Inr m"
  shows "set (Pros m) = {e \<in> set (ENTITIES cnf). \<not> prefix ''dem_'' e}
       \<and> set (Caps m) = {e \<in> set (Pros m). check_cnf (DATA cnf) e ''enable_capacity'' = Inr (Some 1)}
       \<and> set (Caps m) = {e \<in> set (ENTITIES cnf). \<not> prefix ''dem_'' e
                            \<and> check_cnf (DATA cnf) e ''enable_capacity'' = Inr (Some 1)}"
proof -
  have p: "set (Pros m) = {e \<in> set (ENTITIES cnf). \<not> prefix ''dem_'' e}"
    by (auto simp: init_sets_Inr(2) [OF assms] unique_def)
  have c: "set (Caps m) = {e \<in> set (Pros m). check_cnf (DATA cnf) e ''enable_capacity'' = Inr (Some 1)}"
    by (rule build_cnf_set_Inr [OF init_sets_Inr(3) [OF assms]])
  show ?thesis using p c by auto
qed

theorem caps_are_enabled_processes_witness:
  "init_sets cnf_example = Inr model_example
   \<and> Pros model_example = [''conv_elec_pv'', ''conv_elec_gas'', ''conv_elec_wind'']
   \<and> Caps model_example = [''conv_elec_pv'']
   \<and> set (Caps model_example)
       = {e \<in> set (ENTITIES cnf_example). \<not> prefix ''dem_'' e
            \<and> check_cnf (DATA cnf_example) e ''enable_capacity'' = Inr (Some 1)}"
proof -
  have l: "Pros model_example = [''conv_elec_pv'', ''conv_elec_gas'', ''conv_elec_wind'']"
    "Caps model_example = [''conv_elec_pv'']"
    by (simp_all add: model_example_def)
  from caps_are_enabled_processes [OF init_sets_example]
  have "set (Caps model_example)
       = {e \<in> set (ENTITIES cnf_example). \<not> prefix ''dem_'' e
            \<and> check_cnf (DATA cnf_example) e ''enable_capacity'' = Inr (Some 1)}"
    by (elim conjE)
  with init_sets_example l show ?thesis
    by (intro conjI)
qed

subsection \<open>The flow-conservation constraint\<close>

lemma c_io_balance_in_sets:
  assumes "y \<in> set (Y m)" and "d \<in> set (D m)" and "h \<in> set (H m)"
  shows "c_io_balance m flow_id y d h
     = Inr (if outflow_vars m flow_id y d h = [] \<and> inflow_vars m flow_id y d h = []
            then PyBool True
            else Equality (outflow_vars m flow_id y d h) (inflow_vars m flow_id y d h))"
proof -
  have o: "mapM_err (\<lambda>(f, e). model_fout m f e y d h) (filter (\<lambda>(f, e). f = flow_id) (FoE m))
      = Inr (outflow_vars m flow_id y d h)"
    unfolding outflow_vars_def
    by (rule mapM_err_total) (use assms in \<open>auto simp: model_fout_def\<close>)
  have i: "mapM_err (\<lambda>(f, e). model_fin m f e y d h) (filter (\<lambda>(f, e). f = flow_id) (FiE m))
      = Inr (inflow_vars m flow_id y d h)"
    unfolding inflow_vars_def
    by (rule mapM_err_total) (use assms in \<open>auto simp: model_fin_def\<close>)
  show ?thesis
    by (simp add: c_io_balance_def o i bind_err_def)
qed

lemma constraint_at_Inr:
  assumes "constraint_at m (f, y, d, h) = Inr c"
  shows "\<exists>l r. c = ((f, y, d, h), Equality l r) \<and> c_io_balance m f y d h = Inr (Equality l r)"
  using assms
  by (auto simp: constraint_at_def bind_err_def split: sum.splits relation.splits)

lemma mapM_constraint_at:
  assumes "mapM_err (constraint_at m) idxs = Inr cs" and "idx \<in> set idxs"
  shows "\<exists>rel. map_of cs idx = Some rel \<and> constraint_at m idx = Inr (idx, rel)"
  using assms
proof (induction idxs arbitrary: cs)
  case Nil
  then show ?case by simp
next
  case (Cons i idxs)
  from Cons.prems(1) obtain c cs' where c: "constraint_at m i = Inr c"
    and cs': "mapM_err (constraint_at m) idxs = Inr cs'" and cs: "cs = c # cs'"
    by (auto split: sum.splits)
  obtain f y d h where i: "i = (f, y, d, h)" by (cases i)
  from constraint_at_Inr [OF c [unfolded i]] obtain rel where rel: "c = (i, rel)"
    by (auto simp: i)
  show ?case
  proof (cases "idx = i")
    case True
    then show ?thesis using c rel cs by simp
  next
    case False
    with Cons.prems(2) have "idx \<in> set idxs" by simp
    from Cons.IH [OF cs' this] False show ?thesis by (simp add: cs rel)
  qed
qed

lemma mapM_constraint_at_keys:
  "mapM_err (constraint_at m) idxs = Inr cs \<Longrightarrow> map fst cs = idxs"
proof (induction idxs arbitrary: cs)
  case Nil
  then show ?case by simp
next
  case (Cons i idxs)
  from Cons.prems obtain c cs' where c: "constraint_at m i = Inr c"
    and cs': "mapM_err (constraint_at m) idxs = Inr cs'" and cs: "cs = c # cs'"
    by (auto split: sum.splits)
  obtain f y d h where i: "i = (f, y, d, h)" by (cases i)
  from constraint_at_Inr [OF c [unfolded i]] have "fst c = i"
    by (auto simp: i)
  with Cons.IH [OF cs'] show ?case by (simp add: cs)
qed

lemma init_model_Inr:
  assumes "init_model cnf gen_expr = Inr (m, ps, ex, cs)"
  shows "init_sets cnf = Inr m"
    and "init_parameters cnf m = Inr ps"
    and "init_expressions gen_expr m ps = Inr ex"
    and "mapM_err (constraint_at m)
           (List.product (F m) (List.product (Y m) (List.product (D m) (H m)))) = Inr cs"
  using assms by (auto simp: init_model_def bind_err_def split: sum.splits)

lemma init_parameters_example: "init_parameters cnf_example model_example = Inr parameters_example"
  by (simp add: init_parameters_def discount_rates_def day_share_def get_const_def lookup3_def
      cnf_example_def store_cnf_example_def model_example_def parameters_example_def
      bind_err_def)

lemma init_expressions_example:
  "init_expressions gen_expr_example model_example parameters_example = Inr expressions_example"
  by (simp add: init_expressions_def expression_family_def gen_expr_example_def
      expressions_example_def model_example_def bind_err_def)

lemma constraints_of_example:
  "mapM_err (constraint_at model_example)
     (List.product (F model_example)
        (List.product (Y model_example) (List.product (D model_example) (H model_example))))
   = Inr constraints_example"
  by (simp add: model_example_def constraints_example_def constraint_at_def c_io_balance_def
      model_fout_def model_fin_def bind_err_def)

lemma init_model_example:
  "init_model cnf_example gen_expr_example
     = Inr (model_example, parameters_example, expressions_example, constraints_example)"
  by (simp add: init_model_def init_sets_example init_parameters_example
      init_expressions_example constraints_of_example bind_err_def)

text \<open>
  Claim C5: when model initialisation succeeds, the constraint family \<open>c_io_balance\<close>
  has one constraint for every index of \<open>F\<close>, \<open>Y\<close>, \<open>D\<close> and \<open>H\<close> and
  holds, for every flow of \<open>F\<close>, year of \<open>Y\<close>, day of \<open>D\<close> and hour of \<open>H\<close>, the equality
  of the sum of the outflow variables over the pairs of \<open>FoE\<close> whose flow is that flow
  and the sum of the inflow variables over the pairs of \<open>FiE\<close> whose flow is that flow,
  all at that year, day and hour; an assignment satisfies it exactly when the two sums
  are equal.
\<close>

theorem c_io_balance_flow_conservation:
  assumes "init_model cnf gen_expr = Inr (m, ps, ex, cs)"
    and "flow_id \<in> set (F m)" and "y \<in> set (Y m)" and "d \<in> set (D m)" and "h \<in> set (H m)"
  shows "map fst cs = List.product (F m) (List.product (Y m) (List.product (D m) (H m)))
       \<and> map_of cs (flow_id, y, d, h)
           = Some (Equality (outflow_vars m flow_id y d h) (inflow_vars m flow_id y d h))
       \<and> (holds val (Equality (outflow_vars m flow_id y d h) (inflow_vars m flow_id y d h))
            \<longleftrightarrow> (\<Sum>(f, e) \<leftarrow> filter (\<lambda>(f, e). f = flow_id) (FoE m). val (Var_fout f e y d h))
                = (\<Sum>(f, e) \<leftarrow> filter (\<lambda>(f, e). f = flow_id) (FiE m). val (Var_fin f e y d h)))"
proof -
  have "(flow_id, y, d, h) \<in> set (List.product (F m) (List.product (Y m) (List.product (D m) (H m))))"
    using assms(2-5) by simp
  from mapM_constraint_at [OF init_model_Inr(4) [OF assms(1)] this]
  obtain rel where rel: "map_of cs (flow_id, y, d, h) = Some rel"
    and at: "constraint_at m (flow_id, y, d, h) = Inr ((flow_id, y, d, h), rel)"
    by blast
  from constraint_at_Inr [OF at] obtain l r where lr: "rel = Equality l r"
    and bal: "c_io_balance m flow_id y d h = Inr (Equality l r)"
    by auto
  from bal c_io_balance_in_sets [OF assms(3-5), of flow_id]
  have "rel = Equality (outflow_vars m flow_id y d h) (inflow_vars m flow_id y d h)"
    by (simp add: lr split: if_splits)
  with rel have 1: "map_of cs (flow_id, y, d, h)
           = Some (Equality (outflow_vars m flow_id y d h) (inflow_vars m flow_id y d h))"
    by simp
  have 2: "sum_list (map val (outflow_vars m flow_id y d h))
      = (\<Sum>(f, e) \<leftarrow> filter (\<lambda>(f, e). f = flow_id) (FoE m). val (Var_fout f e y d h))"
    by (simp add: outflow_vars_def comp_def split_def)
  have 3: "sum_list (map val (inflow_vars m flow_id y d h))
      = (\<Sum>(f, e) \<leftarrow> filter (\<lambda>(f, e). f = flow_id) (FiE m). val (Var_fin f e y d h))"
    by (simp add: inflow_vars_def comp_def split_def)
  have 0: "map fst cs = List.product (F m) (List.product (Y m) (List.product (D m) (H m)))"
    by (rule mapM_constraint_at_keys [OF init_model_Inr(4) [OF assms(1)]])
  show ?thesis using 0 1 2 3 by simp
qed

theorem c_io_balance_flow_conservation_witness:
  "init_model cnf_example gen_expr_example
     = Inr (model_example, parameters_example, expressions_example, constraints_example)
   \<and> ''elec'' \<in> set (F model_example) \<and> 2021 \<in> set (Y model_example)
   \<and> 0 \<in> set (D model_example) \<and> 0 \<in> set (H model_example)
   \<and> map_of constraints_example (''elec'', 2021, 0, 0)
       = Some (Equality [Var_fout ''elec'' ''conv_elec_pv'' 2021 0 0,
                         Var_fout ''elec'' ''conv_elec_gas'' 2021 0 0,
                         Var_fout ''elec'' ''conv_elec_wind'' 2021 0 0]
                        [Var_fin ''elec'' ''dem_elec'' 2021 0 0])
   \<and> holds (\<lambda>v. case v of Var_fin f e y d h \<Rightarrow> 15 | _ \<Rightarrow> 5)
        (Equality (outflow_vars model_example ''elec'' 2021 0 0)
                  (inflow_vars model_example ''elec'' 2021 0 0))
   \<and> \<not> holds (\<lambda>v. case v of Var_fin f e y d h \<Rightarrow> 10 | _ \<Rightarrow> 5)
        (Equality (outflow_vars model_example ''elec'' 2021 0 0)
                  (inflow_vars model_example ''elec'' 2021 0 0))"
proof -
  have s: "''elec'' \<in> set (F model_example)" "2021 \<in> set (Y model_example)"
    "0 \<in> set (D model_example)" "0 \<in> set (H model_example)"
    by (simp_all add: model_example_def)
  have v: "outflow_vars model_example ''elec'' 2021 0 0
             = [Var_fout ''elec'' ''conv_elec_pv'' 2021 0 0,
                Var_fout ''elec'' ''conv_elec_gas'' 2021 0 0,
                Var_fout ''elec'' ''conv_elec_wind'' 2021 0 0]"
    "inflow_vars model_example ''elec'' 2021 0 0 = [Var_fin ''elec'' ''dem_elec'' 2021 0 0]"
    by (simp_all add: outflow_vars_def inflow_vars_def model_example_def)
  from c_io_balance_flow_conservation [OF init_model_example s,
      of "\<lambda>v. case v of Var_fin f e y d h \<Rightarrow> 15 | _ \<Rightarrow> 5"]
    c_io_balance_flow_conservation [OF init_model_example s,
      of "\<lambda>v. case v of Var_fin f e y d h \<Rightarrow> 10 | _ \<Rightarrow> 5"]
  show ?thesis using s v init_model_example by simp
qed

section \<open>Properties of the construction of the store\<close>


















end
